theory Spec2Isabelle
  imports Complex_Main
begin

section \<open>The banking ledger: data model\<close>

text \<open>
  The store is the MySQL schema of \<^verbatim>\<open>migrations/001_initial_schema.sql\<close>: three tables,
  modelled as lists of rows. Money columns are \<^verbatim>\<open>DECIMAL(15,2)\<close>: fixed point with two
  decimals, modelled as an integer number of hundredths (1000.00 is \<open>100000\<close>).

  The amount of a request is a JavaScript \<^verbatim>\<open>number\<close> and need not be a whole number
  of cents. It is modelled as a rational number, in the same unit of hundredths (300.00
  is \<open>30000\<close>, 0.005 is \<open>1/2\<close>), and stands for the decimal number the request
  wrote: the comparisons and sums of the code are exact on it, and the binary rounding of
  floating point is not modelled. A value written to a money column is rounded to two
  decimals by the store (\<open>store_decimal\<close> below).

  The columns \<^verbatim>\<open>id\<close> of \<^verbatim>\<open>transactions\<close> (AUTO_INCREMENT) and
  \<^verbatim>\<open>created_at\<close>, \<^verbatim>\<open>updated_at\<close> (timestamps) are assigned by the store, are read
  by no decision of the code, and are left out of the rows.

  The store is reachable and one call runs at a time: a statement fails only by a
  constraint of the schema, and the statements of two connections do not interleave.
\<close>

datatype transaction_type = Deposit | Withdrawal | Transfer

datatype transaction_status = Completed | Failed

record user =
  usr_id :: int
  username :: string
  secret_key :: string

record account =
  acc_id :: int
  user_id :: int
  account_number :: string
  balance :: int

text \<open>\<^verbatim>\<open>interface Transaction\<close> and \<^verbatim>\<open>TransactionRow\<close> of model/transaction.ts.\<close>

record transaction =
  transaction_id :: string
  txn_type :: transaction_type
  amount :: int
  source_account_id :: "int option"
  destination_account_id :: "int option"
  status :: transaction_status
  failure_reason :: "string option"

text \<open>\<^verbatim>\<open>interface CreateTransactionData\<close>: the two account references are optional.\<close>

record CreateTransactionData =
  req_type :: transaction_type
  req_amount :: rat
  req_source_account_id :: "int option"
  req_destination_account_id :: "int option"

record database =
  users :: "user list"
  accounts :: "account list"
  transactions :: "transaction list"

text \<open>
  What a statement of the store can raise. The first four are the constraints of the
  schema: the range of \<^verbatim>\<open>DECIMAL(15,2)\<close> (strict SQL mode), \<^verbatim>\<open>chk_balance_non_negative\<close>,
  \<^verbatim>\<open>transaction_id ... UNIQUE\<close> and the two foreign keys of \<^verbatim>\<open>transactions\<close>.
  \<open>RowUndefined\<close> is the TypeError of \<^verbatim>\<open>mapRowToTransaction(undefined)\<close>.
\<close>

datatype db_error =
  OutOfRange
  | CheckConstraintViolated
  | DuplicateEntry
  | NoReferencedRow
  | RowUndefined

section \<open>The statements of the store\<close>

definition DECIMAL_15_2_MAX :: int where
  "DECIMAL_15_2_MAX = 999999999999999"

definition in_decimal_range :: "int \<Rightarrow> bool" where
  "in_decimal_range v = (- DECIMAL_15_2_MAX \<le> v \<and> v \<le> DECIMAL_15_2_MAX)"

text \<open>
  The value a \<^verbatim>\<open>DECIMAL(15,2)\<close> column keeps of a number: the nearest hundredth, a
  half rounded away from zero, as MySQL documents for every value stored in an
  exact-value column.
\<close>

definition store_decimal :: "rat \<Rightarrow> int" where
  "store_decimal x = (if 0 \<le> x then round x else - round (- x))"

text \<open>\<^verbatim>\<open>SELECT balance FROM accounts WHERE id = ?\<close>\<close>

definition select_balance :: "database \<Rightarrow> int \<Rightarrow> int list" where
  "select_balance db i = map balance (filter (\<lambda>a. acc_id a = i) (accounts db))"

text \<open>
  \<^verbatim>\<open>UPDATE accounts SET balance = <f balance> WHERE id = ?\<close>: every row with that id gets
  the value of the expression as the column keeps it; the statement fails, and changes
  nothing, when a new value leaves the column's range or breaks
  \<^verbatim>\<open>CHECK (balance >= 0)\<close>. Matching no row is no error.
\<close>

definition new_balance :: "(rat \<Rightarrow> rat) \<Rightarrow> int \<Rightarrow> int" where
  "new_balance f b = store_decimal (f (of_int b))"

definition set_balance :: "(rat \<Rightarrow> rat) \<Rightarrow> int \<Rightarrow> account \<Rightarrow> account" where
  "set_balance f i a = (if acc_id a = i then a\<lparr>balance := new_balance f (balance a)\<rparr> else a)"

definition update_balance :: "(rat \<Rightarrow> rat) \<Rightarrow> int \<Rightarrow> database \<Rightarrow> db_error + database" where
  "update_balance f i db =
     (let new = map (new_balance f) (select_balance db i) in
      if \<not> list_all in_decimal_range new then Inl OutOfRange
      else if \<not> list_all (\<lambda>b. 0 \<le> b) new then Inl CheckConstraintViolated
      else Inr (db\<lparr>accounts := map (set_balance f i) (accounts db)\<rparr>))"

text \<open>
  A foreign key column accepts NULL and the id of an existing account.
\<close>

definition references_account :: "database \<Rightarrow> int option \<Rightarrow> bool" where
  "references_account db r =
     (case r of None \<Rightarrow> True | Some i \<Rightarrow> i \<in> set (map acc_id (accounts db)))"

text \<open>
  \<^verbatim>\<open>INSERT INTO transactions (...) VALUES (...)\<close>, on the row as its columns keep it.
\<close>

definition insert_transaction :: "database \<Rightarrow> transaction \<Rightarrow> db_error + database" where
  "insert_transaction db row =
     (if \<not> in_decimal_range (amount row) then Inl OutOfRange
      else if transaction_id row \<in> set (map transaction_id (transactions db))
        then Inl DuplicateEntry
      else if \<not> (references_account db (source_account_id row)
                \<and> references_account db (destination_account_id row))
        then Inl NoReferencedRow
      else Inr (db\<lparr>transactions := transactions db @ [row]\<rparr>))"

text \<open>\<^verbatim>\<open>SELECT * FROM transactions WHERE transaction_id = ?\<close>\<close>

definition select_transaction :: "database \<Rightarrow> string \<Rightarrow> transaction list" where
  "select_transaction db tid = filter (\<lambda>t. transaction_id t = tid) (transactions db)"

section \<open>TransactionService\<close>

text \<open>
  JavaScript truthiness of an optional number: \<^verbatim>\<open>x || null\<close> is null for
  \<^verbatim>\<open>undefined\<close> and for 0, and \<^verbatim>\<open>!x\<close> holds exactly then.
\<close>

fun or_null :: "int option \<Rightarrow> int option" where
  "or_null None = None"
| "or_null (Some i) = (if i = 0 then None else Some i)"

definition checkSufficientBalance :: "database \<Rightarrow> int \<Rightarrow> rat \<Rightarrow> bool" where
  "checkSufficientBalance db accountId amt =
     (case select_balance db accountId of
        [] \<Rightarrow> False
      | b # _ \<Rightarrow> of_int b \<ge> amt)"

definition processDeposit :: "database \<Rightarrow> int \<Rightarrow> rat \<Rightarrow> db_error + database" where
  "processDeposit db accountId amt = update_balance (\<lambda>b. b + amt) accountId db"

definition processWithdrawal :: "database \<Rightarrow> int \<Rightarrow> rat \<Rightarrow> db_error + database" where
  "processWithdrawal db accountId amt = update_balance (\<lambda>b. b - amt) accountId db"

definition processTransfer :: "database \<Rightarrow> int \<Rightarrow> int \<Rightarrow> rat \<Rightarrow> db_error + database" where
  "processTransfer db sourceId destinationId amt =
     (case update_balance (\<lambda>b. b - amt) sourceId db of
        Inl e \<Rightarrow> Inl e
      | Inr db1 \<Rightarrow> update_balance (\<lambda>b. b + amt) destinationId db1)"

definition mapRowToTransaction :: "transaction \<Rightarrow> transaction" where
  "mapRowToTransaction row =
     \<lparr> transaction_id = transaction_id row, txn_type = txn_type row, amount = amount row,
       source_account_id = source_account_id row,
       destination_account_id = destination_account_id row,
       status = status row, failure_reason = failure_reason row \<rparr>"

text \<open>
  Lines 27 to 73 of \<^verbatim>\<open>submitTransaction\<close>: the amount check and the switch on the
  type. The result is the status, the failure reason and the store after the balance
  updates, or the error a statement raised.
\<close>

definition failed :: "string \<Rightarrow> database \<Rightarrow> db_error + (transaction_status \<times> string option \<times> database)" where
  "failed reason db = Inr (Failed, Some reason, db)"

definition completed :: "db_error + database \<Rightarrow> db_error + (transaction_status \<times> string option \<times> database)" where
  "completed r = (case r of Inl e \<Rightarrow> Inl e | Inr db' \<Rightarrow> Inr (Completed, None, db'))"

definition process :: "database \<Rightarrow> CreateTransactionData \<Rightarrow>
    db_error + (transaction_status \<times> string option \<times> database)" where
  "process db d =
     (if req_amount d \<le> 0 then failed ''Negative or zero amount not allowed'' db
      else case req_type d of
        Deposit \<Rightarrow>
          (case or_null (req_destination_account_id d) of
             None \<Rightarrow> failed ''Destination account required for deposit'' db
           | Some dst \<Rightarrow> completed (processDeposit db dst (req_amount d)))
      | Withdrawal \<Rightarrow>
          (case or_null (req_source_account_id d) of
             None \<Rightarrow> failed ''Source account required for withdrawal'' db
           | Some src \<Rightarrow>
               if \<not> checkSufficientBalance db src (req_amount d)
               then failed ''Insufficient funds'' db
               else completed (processWithdrawal db src (req_amount d)))
      | Transfer \<Rightarrow>
          (case (or_null (req_source_account_id d), or_null (req_destination_account_id d)) of
             (Some src, Some dst) \<Rightarrow>
               if \<not> checkSufficientBalance db src (req_amount d)
               then failed ''Insufficient funds'' db
               else completed (processTransfer db src dst (req_amount d))
           | _ \<Rightarrow> failed ''Both source and destination accounts required for transfer'' db))"

text \<open>
  The row of the INSERT statement of lines 76 to 80, with the amount as the
  \<^verbatim>\<open>DECIMAL(15,2)\<close> column keeps it.
\<close>

definition new_row :: "string \<Rightarrow> CreateTransactionData \<Rightarrow> transaction_status \<Rightarrow> string option \<Rightarrow> transaction" where
  "new_row transactionId d st reason =
     \<lparr> transaction_id = transactionId, txn_type = req_type d,
       amount = store_decimal (req_amount d),
       source_account_id = or_null (req_source_account_id d),
       destination_account_id = or_null (req_destination_account_id d),
       status = st, failure_reason = reason \<rparr>"

text \<open>
  \<^verbatim>\<open>submitTransaction\<close>. The identifier that \<^verbatim>\<open>uuidv4()\<close> draws is the parameter
  \<open>transactionId\<close>. The result is what the call returns (\<open>Inr\<close>) or throws (\<open>Inl\<close>),
  together with the committed store: an error before the commit rolls every statement
  back and leaves the store as it was.
\<close>

definition submitTransaction :: "database \<Rightarrow> string \<Rightarrow> CreateTransactionData \<Rightarrow>
    (db_error + transaction) \<times> database" where
  "submitTransaction db transactionId d =
     (case process db d of
        Inl e \<Rightarrow> (Inl e, db)
      | Inr (st, reason, db1) \<Rightarrow>
          (case insert_transaction db1 (new_row transactionId d st reason) of
             Inl e \<Rightarrow> (Inl e, db)
           | Inr db2 \<Rightarrow>
               (case select_transaction db2 transactionId of
                  [] \<Rightarrow> (Inl RowUndefined, db2)
                | row # _ \<Rightarrow> (Inr (mapRowToTransaction row), db2))))"

text \<open>
  \<^verbatim>\<open>getAccountBalance\<close>: the balance of the first row with that id, or the thrown
  \<^verbatim>\<open>Error('Account not found')\<close>.
\<close>

definition getAccountBalance :: "database \<Rightarrow> int \<Rightarrow> string + int" where
  "getAccountBalance db accountId =
     (case select_balance db accountId of
        [] \<Rightarrow> Inl ''Account not found''
      | b # _ \<Rightarrow> Inr b)"

section \<open>Sequences of submissions and invariants of the store\<close>

text \<open>
  A finite sequence of calls of \<^verbatim>\<open>submitTransaction\<close>, each with the identifier drawn for
  it, run one after the other on the committed store. A call that throws leaves the store
  to the next call as the rollback left it.
\<close>

fun submitTransactions :: "database \<Rightarrow> (string \<times> CreateTransactionData) list \<Rightarrow> database" where
  "submitTransactions db [] = db"
| "submitTransactions db ((transactionId, d) # rest) =
     submitTransactions (snd (submitTransaction db transactionId d)) rest"

definition balances_non_negative :: "database \<Rightarrow> bool" where
  "balances_non_negative db = list_all (\<lambda>a. 0 \<le> balance a) (accounts db)"

text \<open>
  What the schema keeps true of the stored accounts: \<^verbatim>\<open>id\<close> is the primary key and
  AUTO_INCREMENT (distinct and positive), and \<^verbatim>\<open>balance\<close> fits \<^verbatim>\<open>DECIMAL(15,2)\<close>.
\<close>

definition accounts_well_formed :: "database \<Rightarrow> bool" where
  "accounts_well_formed db =
     (distinct (map acc_id (accounts db))
      \<and> list_all (\<lambda>a. 0 < acc_id a \<and> in_decimal_range (balance a)) (accounts db))"

text \<open>
  The conditions under which the store accepts the ledger row of a request: the amount
  fits its column, the identifier is not in the table yet, and each account reference of
  the row is NULL or names a stored account.
\<close>

definition ledger_accepts :: "database \<Rightarrow> string \<Rightarrow> CreateTransactionData \<Rightarrow> bool" where
  "ledger_accepts db transactionId d =
     (in_decimal_range (store_decimal (req_amount d))
      \<and> transactionId \<notin> set (map transaction_id (transactions db))
      \<and> references_account db (or_null (req_source_account_id d))
      \<and> references_account db (or_null (req_destination_account_id d)))"

section \<open>Business rules, in the words of the specification\<close>

text \<open>
  The three business-rule violations the specification names: a non-positive amount, a
  missing required account reference (the destination of a deposit, the source of a
  withdrawal, both for a transfer), and a source account whose balance is below the amount.
\<close>

definition missing_required_reference :: "CreateTransactionData \<Rightarrow> bool" where
  "missing_required_reference d =
     (case req_type d of
        Deposit \<Rightarrow> or_null (req_destination_account_id d) = None
      | Withdrawal \<Rightarrow> or_null (req_source_account_id d) = None
      | Transfer \<Rightarrow> or_null (req_source_account_id d) = None
                    \<or> or_null (req_destination_account_id d) = None)"

definition insufficient_funds :: "database \<Rightarrow> CreateTransactionData \<Rightarrow> bool" where
  "insufficient_funds db d =
     (req_type d \<noteq> Deposit \<and>
      (case or_null (req_source_account_id d) of
         None \<Rightarrow> False
       | Some src \<Rightarrow>
           (case getAccountBalance db src of
              Inl _ \<Rightarrow> False
            | Inr b \<Rightarrow> of_int b < req_amount d)))"

definition violates_business_rule :: "database \<Rightarrow> CreateTransactionData \<Rightarrow> bool" where
  "violates_business_rule db d =
     (req_amount d \<le> 0 \<or> missing_required_reference d \<or> insufficient_funds db d)"

definition failure_reasons :: "string list" where
  "failure_reasons =
     [''Negative or zero amount not allowed'',
      ''Destination account required for deposit'',
      ''Source account required for withdrawal'',
      ''Both source and destination accounts required for transfer'',
      ''Insufficient funds'']"

definition constraint_violation :: "db_error \<Rightarrow> bool" where
  "constraint_violation e =
     (e = OutOfRange \<or> e = CheckConstraintViolated \<or> e = DuplicateEntry \<or> e = NoReferencedRow)"

section \<open>The summary report\<close>

text \<open>
  The first query of \<^verbatim>\<open>getSummaryReport\<close>. \<^verbatim>\<open>accounts.id\<close> and \<^verbatim>\<open>users.id\<close> are
  primary keys, so every group of the GROUP BY holds the rows of one account, joined with
  at most one user and with the completed transactions that name the account. A
  comparison with a NULL reference is not true in SQL, which \<open>Some\<close> on the right of the
  equations gives. \<^verbatim>\<open>MAX\<close> over no row is NULL, which \<^verbatim>\<open>COALESCE\<close> turns to 0.
\<close>

record AccountSummary =
  sum_account_id :: int
  sum_account_number :: string
  sum_username :: "string option"
  current_balance :: int
  largest_transaction :: int

definition sql_max :: "int list \<Rightarrow> int option" where
  "sql_max xs = (case xs of [] \<Rightarrow> None | x # rest \<Rightarrow> Some (fold max rest x))"

definition coalesce :: "int option \<Rightarrow> int \<Rightarrow> int" where
  "coalesce v dflt = (case v of None \<Rightarrow> dflt | Some x \<Rightarrow> x)"

definition joined_transactions :: "database \<Rightarrow> account \<Rightarrow> transaction list" where
  "joined_transactions db a =
     filter (\<lambda>t. (source_account_id t = Some (acc_id a)
                  \<or> destination_account_id t = Some (acc_id a))
                 \<and> status t = Completed)
       (transactions db)"

definition joined_username :: "database \<Rightarrow> account \<Rightarrow> string option" where
  "joined_username db a = map_option username (find (\<lambda>u. usr_id u = user_id a) (users db))"

definition getSummaryReport_accounts :: "database \<Rightarrow> AccountSummary list" where
  "getSummaryReport_accounts db =
     map (\<lambda>a. \<lparr> sum_account_id = acc_id a,
                sum_account_number = account_number a,
                sum_username = joined_username db a,
                current_balance = balance a,
                largest_transaction = coalesce (sql_max (map amount (joined_transactions db a))) 0 \<rparr>)
       (accounts db)"

text \<open>
  The specification's wording of the same figure: the maximum amount over all completed
  transactions where the account is source or destination, or 0 if there is none.
\<close>

definition completed_amounts :: "database \<Rightarrow> int \<Rightarrow> int set" where
  "completed_amounts db i =
     {amount t | t. t \<in> set (transactions db) \<and> status t = Completed
        \<and> (source_account_id t = Some i \<or> destination_account_id t = Some i)}"

definition largest_completed_transaction :: "database \<Rightarrow> int \<Rightarrow> int" where
  "largest_completed_transaction db i =
     (if completed_amounts db i = {} then 0 else Max (completed_amounts db i))"

section \<open>Middleware and the transaction controller\<close>

text \<open>
  \<^verbatim>\<open>interface ApiError\<close> (status code and code are optional) and the constructor of
  \<^verbatim>\<open>class AppError\<close>. The controller calls the constructor with two arguments; the code
  is then the default \<^verbatim>\<open>'INTERNAL_ERROR'\<close>.
\<close>

record ApiError =
  err_message :: string
  err_statusCode :: "nat option"
  err_code :: "string option"

definition AppError :: "string \<Rightarrow> nat \<Rightarrow> string \<Rightarrow> ApiError" where
  "AppError msg statusCode cd =
     \<lparr> err_message = msg, err_statusCode = Some statusCode, err_code = Some cd \<rparr>"

definition INTERNAL_ERROR :: string where
  "INTERNAL_ERROR = ''INTERNAL_ERROR''"

record ErrorResponse =
  res_status :: nat
  res_error :: string
  res_message :: string

text \<open>
  \<^verbatim>\<open>errorHandler\<close> of middleware/error.ts. \<^verbatim>\<open>x || dflt\<close> takes the default for an
  absent value, for 0 and for the empty string.
\<close>

definition errorHandler :: "ApiError \<Rightarrow> ErrorResponse" where
  "errorHandler error =
     (let statusCode = (case err_statusCode error of
                          None \<Rightarrow> 500
                        | Some n \<Rightarrow> if n = 0 then 500 else n);
          msg = (if err_message error = [] then ''Internal server error'' else err_message error);
          cd = (case err_code error of
                  None \<Rightarrow> INTERNAL_ERROR
                | Some c \<Rightarrow> if c = [] then INTERNAL_ERROR else c);
          (statusCode, cd) =
            (if err_message error = ''Username already exists'' then (409, ''USERNAME_EXISTS'')
             else if err_message error = ''Account number already exists'' then (409, ''ACCOUNT_EXISTS'')
             else if err_message error = ''User does not exist'' then (404, ''USER_NOT_FOUND'')
             else if err_message error = ''Insufficient funds'' then (400, ''INSUFFICIENT_FUNDS'')
             else if err_message error = ''Source account not found''
               then (404, ''SOURCE_ACCOUNT_NOT_FOUND'')
             else if err_message error = ''Destination account not found''
               then (404, ''DESTINATION_ACCOUNT_NOT_FOUND'')
             else if err_message error = ''Account not found'' then (404, ''ACCOUNT_NOT_FOUND'')
             else (statusCode, cd))
      in \<lparr> res_status = statusCode, res_error = cd, res_message = msg \<rparr>)"

text \<open>\<^verbatim>\<open>AccountService.findById\<close> and \<^verbatim>\<open>UserService.findBySecretKey\<close>.\<close>

definition findById :: "database \<Rightarrow> int \<Rightarrow> account option" where
  "findById db i =
     (case filter (\<lambda>a. acc_id a = i) (accounts db) of [] \<Rightarrow> None | a # _ \<Rightarrow> Some a)"

definition findBySecretKey :: "database \<Rightarrow> string \<Rightarrow> user option" where
  "findBySecretKey db secretKey =
     (case filter (\<lambda>u. secret_key u = secretKey) (users db) of [] \<Rightarrow> None | u # _ \<Rightarrow> Some u)"

text \<open>
  \<^verbatim>\<open>authenticateUser\<close>: the status 401 it answers with, or the user it attaches to the
  request. A missing header and an empty one are both falsy.
\<close>

definition authenticateUser :: "database \<Rightarrow> string option \<Rightarrow> nat + user" where
  "authenticateUser db header =
     (case header of
        None \<Rightarrow> Inl 401
      | Some secretKey \<Rightarrow>
          if secretKey = [] then Inl 401
          else (case findBySecretKey db secretKey of
                  None \<Rightarrow> Inl 401
                | Some u \<Rightarrow> Inr u))"

text \<open>
  \<^verbatim>\<open>schemas.transaction\<close> of middleware/validation.ts on a body whose type is one of the
  three and whose amount is a number: the source is a positive integer, required for a
  withdrawal and a transfer and forbidden otherwise; the destination likewise for a
  deposit and a transfer. \<^verbatim>\<open>Joi.number()\<close> refuses a number beyond
  \<^verbatim>\<open>Number.MAX_SAFE_INTEGER\<close> in size, the amount as well as an id; the amount is in
  hundredths here, so its bound is a hundred times that.
\<close>

definition MAX_SAFE_INTEGER :: int where
  "MAX_SAFE_INTEGER = 9007199254740991"

definition safe_amount :: "rat \<Rightarrow> bool" where
  "safe_amount a =
     (- (of_int MAX_SAFE_INTEGER * 100) \<le> a \<and> a \<le> of_int MAX_SAFE_INTEGER * 100)"

definition required_positive :: "int option \<Rightarrow> bool" where
  "required_positive r =
     (case r of None \<Rightarrow> False | Some i \<Rightarrow> 0 < i \<and> i \<le> MAX_SAFE_INTEGER)"

definition schemas_transaction :: "CreateTransactionData \<Rightarrow> bool" where
  "schemas_transaction b =
     (safe_amount (req_amount b)
      \<and> (if req_type b = Withdrawal \<or> req_type b = Transfer
         then required_positive (req_source_account_id b)
         else req_source_account_id b = None)
      \<and> (if req_type b = Deposit \<or> req_type b = Transfer
         then required_positive (req_destination_account_id b)
         else req_destination_account_id b = None))"

record Request =
  req_body :: CreateTransactionData
  req_user :: "user option"

text \<open>
  Lines 9 to 29 of \<^verbatim>\<open>TransactionController.submitTransaction\<close>: the error thrown by the
  ownership checks, if any. The destination is looked at for a deposit only.
\<close>

definition not_owner :: "Request \<Rightarrow> account \<Rightarrow> bool" where
  "not_owner req a = (case req_user req of None \<Rightarrow> True | Some u \<Rightarrow> user_id a \<noteq> usr_id u)"

definition check_source :: "database \<Rightarrow> Request \<Rightarrow> ApiError option" where
  "check_source db req =
     (case or_null (req_source_account_id (req_body req)) of
        None \<Rightarrow> None
      | Some src \<Rightarrow>
          (case findById db src of
             None \<Rightarrow> Some (AppError ''Source account not found'' 404 INTERNAL_ERROR)
           | Some sourceAccount \<Rightarrow>
               if not_owner req sourceAccount
               then Some (AppError ''Unauthorized access to source account'' 403 INTERNAL_ERROR)
               else None))"

definition check_destination :: "database \<Rightarrow> Request \<Rightarrow> ApiError option" where
  "check_destination db req =
     (case or_null (req_destination_account_id (req_body req)) of
        None \<Rightarrow> None
      | Some dst \<Rightarrow>
          if req_type (req_body req) \<noteq> Deposit then None
          else (case findById db dst of
                  None \<Rightarrow> Some (AppError ''Destination account not found'' 404 INTERNAL_ERROR)
                | Some destAccount \<Rightarrow>
                    if not_owner req destAccount
                    then Some (AppError ''Unauthorized access to destination account'' 403 INTERNAL_ERROR)
                    else None))"

text \<open>
  The body of the \<^verbatim>\<open>try\<close> block: the error it throws or the transaction it answers
  with. An error of the store is an \<^verbatim>\<open>Error\<close> with the store's message and no status
  code; the message texts are the store's and are the parameter \<open>store_message\<close>.
\<close>

definition try_submitTransaction ::
  "(db_error \<Rightarrow> string) \<Rightarrow> database \<Rightarrow> string \<Rightarrow> Request \<Rightarrow> (ApiError + transaction) \<times> database" where
  "try_submitTransaction store_message db transactionId req =
     (case check_source db req of
        Some err \<Rightarrow> (Inl err, db)
      | None \<Rightarrow>
          (case check_destination db req of
             Some err \<Rightarrow> (Inl err, db)
           | None \<Rightarrow>
               (case submitTransaction db transactionId (req_body req) of
                  (Inl e, db') \<Rightarrow>
                    (Inl \<lparr> err_message = store_message e, err_statusCode = None, err_code = None \<rparr>, db')
                | (Inr t, db') \<Rightarrow> (Inr t, db'))))"

text \<open>
  \<^verbatim>\<open>TransactionController.submitTransaction\<close>: the status 201 with the transaction, or
  the error that leaves the \<^verbatim>\<open>catch\<close> block. Every error thrown in the \<^verbatim>\<open>try\<close> block
  is an \<^verbatim>\<open>instanceof Error\<close>, an \<^verbatim>\<open>AppError\<close> too, and is thrown again as
  \<^verbatim>\<open>new AppError(error.message, 400)\<close>.
\<close>

definition controller_submitTransaction ::
  "(db_error \<Rightarrow> string) \<Rightarrow> database \<Rightarrow> string \<Rightarrow> Request \<Rightarrow> (ApiError + nat \<times> transaction) \<times> database" where
  "controller_submitTransaction store_message db transactionId req =
     (case try_submitTransaction store_message db transactionId req of
        (Inl error, db') \<Rightarrow> (Inl (AppError (err_message error) 400 INTERNAL_ERROR), db')
      | (Inr t, db') \<Rightarrow> (Inr (201, t), db'))"

text \<open>
  Modelled from the spec: the application file that mounts the routes and the error
  handler is not among the sources. By the specification every typed error is caught by
  the single global handler and rendered by it, so the status of the response to a
  request that passed authentication and validation is 201 or the status
  \<^verbatim>\<open>errorHandler\<close> computes from the error the controller threw.
\<close>

definition post_transactions_status ::
  "(db_error \<Rightarrow> string) \<Rightarrow> database \<Rightarrow> string \<Rightarrow> Request \<Rightarrow> nat" where
  "post_transactions_status store_message db transactionId req =
     (case fst (controller_submitTransaction store_message db transactionId req) of
        Inl error \<Rightarrow> res_status (errorHandler error)
      | Inr (st, _) \<Rightarrow> st)"

section \<open>Fixtures\<close>

text \<open>
  The accounts of the seed script (\<^verbatim>\<open>ACC001\<close> with 1000.00, \<^verbatim>\<open>ACC002\<close> with 500.00,
  \<^verbatim>\<open>ACC003\<close> with 750.00, one per user) and an empty ledger. The script draws the secret
  keys at random; fixed strings stand for them here.
\<close>

definition seed_db :: database where
  "seed_db =
     \<lparr> users = [\<lparr>usr_id = 1, username = ''alice'', secret_key = ''key-alice''\<rparr>,
                \<lparr>usr_id = 2, username = ''bob'', secret_key = ''key-bob''\<rparr>,
                \<lparr>usr_id = 3, username = ''charlie'', secret_key = ''key-charlie''\<rparr>],
       accounts = [\<lparr>acc_id = 1, user_id = 1, account_number = ''ACC001'', balance = 100000\<rparr>,
                   \<lparr>acc_id = 2, user_id = 2, account_number = ''ACC002'', balance = 50000\<rparr>,
                   \<lparr>acc_id = 3, user_id = 3, account_number = ''ACC003'', balance = 75000\<rparr>],
       transactions = [] \<rparr>"

definition request :: "transaction_type \<Rightarrow> rat \<Rightarrow> int option \<Rightarrow> int option \<Rightarrow> CreateTransactionData" where
  "request ty amt src dst =
     \<lparr> req_type = ty, req_amount = amt, req_source_account_id = src,
       req_destination_account_id = dst \<rparr>"

text \<open>
  The store after a deposit of 500.00 to account 1, a refused withdrawal of 5000.00 from
  account 1 and a transfer of 300.00 from account 1 to account 2, with the balances left
  as seeded (the report reads the two tables independently).
\<close>

definition ledger_db :: database where
  "ledger_db = seed_db\<lparr>transactions :=
     [\<lparr> transaction_id = ''t-1'', txn_type = Deposit, amount = 50000,
         source_account_id = None, destination_account_id = Some 1,
         status = Completed, failure_reason = None \<rparr>,
      \<lparr> transaction_id = ''t-2'', txn_type = Withdrawal, amount = 500000,
         source_account_id = Some 1, destination_account_id = None,
         status = Failed, failure_reason = Some ''Insufficient funds'' \<rparr>,
      \<lparr> transaction_id = ''t-3'', txn_type = Transfer, amount = 30000,
         source_account_id = Some 1, destination_account_id = Some 2,
         status = Completed, failure_reason = None \<rparr>]\<rparr>"

text \<open>
  The user bob, who owns account 2, asks to withdraw 200.00 from account 1, which alice owns.
\<close>

definition bob :: user where
  "bob = \<lparr>usr_id = 2, username = ''bob'', secret_key = ''key-bob''\<rparr>"

definition foreign_withdrawal :: Request where
  "foreign_withdrawal =
     \<lparr> req_body = request Withdrawal 20000 (Some 1) None, req_user = Some bob \<rparr>"

text \<open>The leading words of the messages of MySQL and of Node for the five errors.\<close>

definition mysql_message :: "db_error \<Rightarrow> string" where
  "mysql_message e =
     (case e of
        OutOfRange \<Rightarrow> ''Out of range value for column''
      | CheckConstraintViolated \<Rightarrow> ''Check constraint is violated''
      | DuplicateEntry \<Rightarrow> ''Duplicate entry''
      | NoReferencedRow \<Rightarrow> ''Cannot add or update a child row: a foreign key constraint fails''
      | RowUndefined \<Rightarrow> ''Cannot read properties of undefined'')"

section \<open>Auxiliary facts about the statements\<close>

subsection \<open>Rounding to the column\<close>

lemma store_decimal_of_int: "store_decimal (of_int k) = k"
  by (simp add: store_decimal_def flip: of_int_minus)

lemma store_decimal_whole:
  "store_decimal (of_int b + of_int n) = b + n"
  "store_decimal (of_int b - of_int n) = b - n"
  by (simp_all add: store_decimal_of_int flip: of_int_add of_int_diff)

lemma store_decimal_numeral:
  "store_decimal (numeral k) = numeral k"
  "store_decimal (- numeral k) = - numeral k"
  "store_decimal 0 = 0"
  by (simp_all add: store_decimal_def)

lemma store_decimal_nonneg: "0 \<le> x \<Longrightarrow> 0 \<le> store_decimal x"
  by (simp add: store_decimal_def round_def)

text \<open>Half a cent: 0.005, 999.995, 1000.005 and 500.005 as the column keeps them.\<close>

lemma store_decimal_half_cent:
  "store_decimal (1 / 2) = 1"
  "store_decimal (199999 / 2) = 100000"
  "store_decimal (200001 / 2) = 100001"
  "store_decimal (100001 / 2) = 50001"
  by code_simp+

lemmas eval_defs = submitTransaction_def process_def failed_def completed_def
  insert_transaction_def select_transaction_def mapRowToTransaction_def new_row_def
  request_def seed_db_def in_decimal_range_def DECIMAL_15_2_MAX_def references_account_def
  checkSufficientBalance_def select_balance_def processDeposit_def processWithdrawal_def
  processTransfer_def update_balance_def set_balance_def new_balance_def
  store_decimal_numeral store_decimal_half_cent getAccountBalance_def

subsection \<open>Frames\<close>

lemma completed_Inr:
  "completed r = Inr (st, reason, db') \<longleftrightarrow> r = Inr db' \<and> st = Completed \<and> reason = None"
  by (cases r) (auto simp: completed_def)

lemma failed_Inr:
  "failed msg db = Inr (st, reason, db') \<longleftrightarrow> st = Failed \<and> reason = Some msg \<and> db' = db"
  by (auto simp: failed_def)

lemma mapRowToTransaction_id: "mapRowToTransaction row = row"
  by (simp add: mapRowToTransaction_def)

lemma acc_id_set_balance: "acc_id (set_balance f i a) = acc_id a"
  by (simp add: set_balance_def)

text \<open>An update of balances touches neither the ids, nor the ledger, nor the users.\<close>

lemma update_balance_frame:
  assumes "update_balance f i db = Inr db'"
  shows "map acc_id (accounts db') = map acc_id (accounts db)"
    and "transactions db' = transactions db" and "users db' = users db"
  using assms
  by (auto simp: update_balance_def Let_def acc_id_set_balance split: if_splits)

lemma processTransfer_frame:
  assumes "processTransfer db s t amt = Inr db'"
  shows "map acc_id (accounts db') = map acc_id (accounts db)"
    and "transactions db' = transactions db" and "users db' = users db"
proof -
  from assms obtain db1 where 1: "update_balance (\<lambda>b. b - amt) s db = Inr db1"
    and 2: "update_balance (\<lambda>b. b + amt) t db1 = Inr db'"
    by (auto simp: processTransfer_def split: sum.splits)
  show "map acc_id (accounts db') = map acc_id (accounts db)"
    using update_balance_frame(1) [OF 1] update_balance_frame(1) [OF 2] by simp
  show "transactions db' = transactions db"
    using update_balance_frame(2) [OF 1] update_balance_frame(2) [OF 2] by simp
  show "users db' = users db"
    using update_balance_frame(3) [OF 1] update_balance_frame(3) [OF 2] by simp
qed

lemma process_frame:
  assumes "process db d = Inr (st, reason, db')"
  shows "map acc_id (accounts db') = map acc_id (accounts db)"
    and "transactions db' = transactions db" and "users db' = users db"
  using assms
  by (auto simp: process_def completed_Inr failed_Inr processDeposit_def processWithdrawal_def
      split: if_splits transaction_type.splits option.splits
      dest: update_balance_frame processTransfer_frame)

lemma references_account_cong:
  "map acc_id (accounts db') = map acc_id (accounts db) \<Longrightarrow>
   references_account db' r = references_account db r"
  by (cases r) (simp_all add: references_account_def del: set_map)

lemma filter_fresh:
  "tid \<notin> set (map transaction_id ts) \<Longrightarrow> filter (\<lambda>t. transaction_id t = tid) ts = []"
  by (induction ts) auto

subsection \<open>Reading balances\<close>

lemma select_balance_set_balance:
  "map balance (filter (\<lambda>a. acc_id a = j) (map (set_balance f i) accts)) =
     (if j = i then map (new_balance f) (map balance (filter (\<lambda>a. acc_id a = j) accts))
      else map balance (filter (\<lambda>a. acc_id a = j) accts))"
  by (induction accts) (auto simp: set_balance_def)

lemma select_balance_update:
  assumes "update_balance f i db = Inr db'"
  shows "select_balance db' j =
    (if j = i then map (new_balance f) (select_balance db j) else select_balance db j)"
proof -
  from assms have "accounts db' = map (set_balance f i) (accounts db)"
    by (auto simp: update_balance_def Let_def split: if_splits)
  then show ?thesis
    unfolding select_balance_def by (simp only: select_balance_set_balance)
qed

lemma getAccountBalance_Inr:
  "getAccountBalance db i = Inr b \<longleftrightarrow> (\<exists>rest. select_balance db i = b # rest)"
  by (auto simp: getAccountBalance_def split: list.splits)

lemma checkSufficientBalance_iff:
  "checkSufficientBalance db i amt \<longleftrightarrow> (\<exists>b. getAccountBalance db i = Inr b \<and> amt \<le> of_int b)"
  by (auto simp: checkSufficientBalance_def getAccountBalance_def split: list.splits)

lemma references_account_balance:
  assumes "references_account db (Some i)"
  shows "\<exists>b. getAccountBalance db i = Inr b"
proof -
  from assms have "filter (\<lambda>a. acc_id a = i) (accounts db) \<noteq> []"
    by (auto simp: references_account_def filter_empty_conv)
  then show ?thesis
    by (cases "filter (\<lambda>a. acc_id a = i) (accounts db)")
      (auto simp: getAccountBalance_def select_balance_def)
qed

lemma filter_absent_id:
  "i \<notin> set (map acc_id accts) \<Longrightarrow> filter (\<lambda>x. acc_id x = i) accts = []"
  by (induction accts) auto

text \<open>With the primary key, an id selects exactly the one row that carries it.\<close>

lemma filter_distinct_id:
  "distinct (map acc_id accts) \<Longrightarrow> a \<in> set accts \<Longrightarrow>
   filter (\<lambda>x. acc_id x = acc_id a) accts = [a]"
proof (induction accts)
  case Nil
  then show ?case by simp
next
  case (Cons x xs)
  show ?case
  proof (cases "x = a")
    case True
    with Cons.prems have "acc_id a \<notin> set (map acc_id xs)" by simp
    then have "filter (\<lambda>x. acc_id x = acc_id a) xs = []"
      by (rule filter_absent_id)
    with True show ?thesis by simp
  next
    case False
    with Cons.prems have "a \<in> set xs" "acc_id x \<noteq> acc_id a" by auto
    with Cons show ?thesis by simp
  qed
qed

lemma well_formed_account:
  assumes wf: "accounts_well_formed db" and b: "getAccountBalance db A = Inr b"
  shows "select_balance db A = [b]" and "0 < A" and "in_decimal_range b"
proof -
  from b obtain rest where "select_balance db A = b # rest"
    by (auto simp: getAccountBalance_Inr)
  then have "b \<in> set (map balance (filter (\<lambda>a. acc_id a = A) (accounts db)))"
    by (simp add: select_balance_def)
  then obtain a where a: "a \<in> set (accounts db)" "acc_id a = A" "balance a = b"
    by auto
  from wf a(1) have "filter (\<lambda>x. acc_id x = acc_id a) (accounts db) = [a]"
    by (simp add: accounts_well_formed_def filter_distinct_id)
  with a show "select_balance db A = [b]" by (simp add: select_balance_def)
  from wf a show "0 < A" "in_decimal_range b"
    by (auto simp: accounts_well_formed_def list_all_iff)
qed

subsection \<open>The three outcomes of a submission\<close>

text \<open>
  A statement of the balance updates raised: the call throws and the store is as before.
  Otherwise the outcome is decided by the INSERT: accepted, the call returns the new row and
  commits; rejected, the call throws a constraint violation and the store is as before.
\<close>

lemma submitTransaction_throws:
  "process db d = Inl e \<Longrightarrow> submitTransaction db tid d = (Inl e, db)"
  by (simp add: submitTransaction_def)

lemma submitTransaction_accepted:
  assumes p: "process db d = Inr (st, reason, db1)" and acc: "ledger_accepts db tid d"
  shows "submitTransaction db tid d =
    (Inr (new_row tid d st reason),
     db1\<lparr>transactions := transactions db @ [new_row tid d st reason]\<rparr>)"
proof -
  let ?row = "new_row tid d st reason"
  note fr = process_frame [OF p]
  have ins: "insert_transaction db1 ?row = Inr (db1\<lparr>transactions := transactions db @ [?row]\<rparr>)"
    using acc fr(2) references_account_cong [OF fr(1)]
    by (simp add: insert_transaction_def ledger_accepts_def new_row_def)
  have sel: "select_transaction (db1\<lparr>transactions := transactions db @ [?row]\<rparr>) tid = [?row]"
    using acc by (simp add: select_transaction_def ledger_accepts_def filter_fresh new_row_def)
  show ?thesis
    by (simp add: submitTransaction_def p ins sel mapRowToTransaction_id)
qed

lemma submitTransaction_rejected:
  assumes p: "process db d = Inr (st, reason, db1)" and rej: "\<not> ledger_accepts db tid d"
  shows "\<exists>e. submitTransaction db tid d = (Inl e, db)
            \<and> (e = OutOfRange \<or> e = DuplicateEntry \<or> e = NoReferencedRow)"
proof -
  note fr = process_frame [OF p]
  have "\<exists>e. insert_transaction db1 (new_row tid d st reason) = Inl e
      \<and> (e = OutOfRange \<or> e = DuplicateEntry \<or> e = NoReferencedRow)"
    using rej fr(2) references_account_cong [OF fr(1)]
    by (auto simp: insert_transaction_def ledger_accepts_def new_row_def)
  then show ?thesis
    by (auto simp: submitTransaction_def p)
qed

subsection \<open>Balances stay non-negative\<close>

lemma list_all_set_balance:
  "list_all (\<lambda>a. P (balance a)) accts \<Longrightarrow>
   list_all P (map (new_balance f) (map balance (filter (\<lambda>a. acc_id a = i) accts))) \<Longrightarrow>
   list_all (\<lambda>a. P (balance a)) (map (set_balance f i) accts)"
  by (induction accts) (auto simp: set_balance_def)

lemma update_balance_non_negative:
  assumes "update_balance f i db = Inr db'" and "balances_non_negative db"
  shows "balances_non_negative db'"
proof -
  from assms(1) have new: "list_all (\<lambda>b. 0 \<le> b) (map (new_balance f) (select_balance db i))"
    and db': "accounts db' = map (set_balance f i) (accounts db)"
    by (auto simp: update_balance_def Let_def split: if_splits)
  from assms(2) new show ?thesis
    unfolding balances_non_negative_def db' select_balance_def
    by (rule list_all_set_balance)
qed

lemma processTransfer_non_negative:
  assumes "processTransfer db s t amt = Inr db'" and "balances_non_negative db"
  shows "balances_non_negative db'"
  using assms
  by (auto simp: processTransfer_def split: sum.splits dest: update_balance_non_negative)

lemma process_non_negative:
  assumes "process db d = Inr (st, reason, db')" and "balances_non_negative db"
  shows "balances_non_negative db'"
  using assms
  by (auto simp: process_def completed_Inr failed_Inr processDeposit_def processWithdrawal_def
      split: if_splits transaction_type.splits option.splits
      dest: update_balance_non_negative processTransfer_non_negative)

lemma insert_transaction_accounts:
  "insert_transaction db row = Inr db' \<Longrightarrow> accounts db' = accounts db"
  by (auto simp: insert_transaction_def split: if_splits)

lemma submitTransaction_non_negative:
  assumes "balances_non_negative db"
  shows "balances_non_negative (snd (submitTransaction db tid d))"
proof (cases "process db d")
  case (Inl e)
  with assms show ?thesis by (simp add: submitTransaction_def)
next
  case (Inr r)
  obtain st reason db1 where r: "r = (st, reason, db1)" by (cases r)
  from Inr r assms have nn: "balances_non_negative db1"
    by (auto dest: process_non_negative)
  show ?thesis
  proof (cases "insert_transaction db1 (new_row tid d st reason)")
    case (Inl e)
    with Inr r assms show ?thesis by (simp add: submitTransaction_def)
  next
    case (Inr db2)
    then have "accounts db2 = accounts db1" by (rule insert_transaction_accounts)
    with nn have "balances_non_negative db2" by (simp add: balances_non_negative_def)
    with Inr \<open>process db d = Inr r\<close> r show ?thesis
      by (simp add: submitTransaction_def split: list.splits)
  qed
qed

subsection \<open>The pre-check of the engine is enough on its own\<close>

text \<open>
  From a store with distinct ids and non-negative balances no submission ever runs into
  \<^verbatim>\<open>chk_balance_non_negative\<close>: the engine debits only what its own check has found
  covered. The constraint is a second line of defence that the sequential code never
  reaches.
\<close>

lemma update_balance_no_check_violation:
  assumes "list_all (\<lambda>b. 0 \<le> new_balance f b) (select_balance db i)"
  shows "update_balance f i db \<noteq> Inl CheckConstraintViolated"
  using assms by (simp add: update_balance_def list_all_iff)

lemma select_balance_non_negative:
  "balances_non_negative db \<Longrightarrow> list_all (\<lambda>b. 0 \<le> b) (select_balance db i)"
  by (auto simp: balances_non_negative_def select_balance_def list_all_iff)

lemma credit_no_check_violation:
  assumes "balances_non_negative db" and "0 < amt"
  shows "update_balance (\<lambda>b. b + amt) i db \<noteq> Inl CheckConstraintViolated"
proof (rule update_balance_no_check_violation)
  from select_balance_non_negative [OF assms(1), of i] assms(2)
  show "list_all (\<lambda>b. 0 \<le> new_balance (\<lambda>b. b + amt) b) (select_balance db i)"
    by (auto simp: list_all_iff new_balance_def intro!: store_decimal_nonneg)
qed

lemma debit_no_check_violation:
  assumes d: "distinct (map acc_id (accounts db))" and c: "checkSufficientBalance db i amt"
  shows "update_balance (\<lambda>b. b - amt) i db \<noteq> Inl CheckConstraintViolated"
proof (rule update_balance_no_check_violation)
  from c obtain b rest where s: "select_balance db i = b # rest" and le: "amt \<le> of_int b"
    by (auto simp: checkSufficientBalance_def split: list.splits)
  from s have "b \<in> set (map balance (filter (\<lambda>a. acc_id a = i) (accounts db)))"
    by (simp add: select_balance_def)
  then obtain a where a: "a \<in> set (accounts db)" "acc_id a = i"
    by auto
  with d have "filter (\<lambda>x. acc_id x = i) (accounts db) = [a]"
    using filter_distinct_id by blast
  with s have "select_balance db i = [b]" by (simp add: select_balance_def)
  with le show "list_all (\<lambda>b. 0 \<le> new_balance (\<lambda>b. b - amt) b) (select_balance db i)"
    by (simp add: new_balance_def store_decimal_nonneg)
qed

lemma pre_check_suffices:
  assumes d: "distinct (map acc_id (accounts db))" and nn: "balances_non_negative db"
  shows "fst (submitTransaction db tid d) \<noteq> Inl CheckConstraintViolated"
proof -
  have p: "process db d \<noteq> Inl CheckConstraintViolated"
  proof (cases "req_amount d \<le> 0")
    case True
    then show ?thesis by (simp add: process_def failed_def)
  next
    case False
    then have pos: "0 < req_amount d" by simp
    show ?thesis
    proof (cases "req_type d")
      case Deposit
      with pos credit_no_check_violation [OF nn pos] show ?thesis
        by (auto simp: process_def failed_def completed_def processDeposit_def
            split: option.splits sum.splits)
    next
      case Withdrawal
      with pos debit_no_check_violation [OF d] show ?thesis
        by (auto simp: process_def failed_def completed_def processWithdrawal_def
            split: option.splits sum.splits)
    next
      case Transfer
      have "processTransfer db s t (req_amount d) \<noteq> Inl CheckConstraintViolated"
        if c: "checkSufficientBalance db s (req_amount d)" for s t
      proof (cases "update_balance (\<lambda>b. b - req_amount d) s db")
        case (Inl e)
        with debit_no_check_violation [OF d c] show ?thesis
          by (auto simp: processTransfer_def)
      next
        case (Inr db1)
        from update_balance_non_negative [OF Inr nn] have "balances_non_negative db1" .
        from credit_no_check_violation [OF this pos] Inr show ?thesis
          by (simp add: processTransfer_def)
      qed
      with Transfer pos show ?thesis
        by (auto simp: process_def failed_def completed_def split: option.splits sum.splits)
    qed
  qed
  show ?thesis
  proof (cases "process db d")
    case (Inl e)
    with p show ?thesis by (auto simp: submitTransaction_def)
  next
    case (Inr r)
    obtain st reason db1 where r: "r = (st, reason, db1)" by (cases r)
    show ?thesis
    proof (cases "ledger_accepts db tid d")
      case True
      from submitTransaction_accepted [OF Inr [unfolded r] True] show ?thesis by simp
    next
      case False
      from submitTransaction_rejected [OF Inr [unfolded r] False] show ?thesis by auto
    qed
  qed
qed

subsection \<open>Transfers\<close>

lemma processTransfer_balances:
  assumes t: "processTransfer db A B a = Inr db1" and ne: "A \<noteq> B"
    and ba: "getAccountBalance db A = Inr ba" and bb: "getAccountBalance db B = Inr bb"
  shows "getAccountBalance db1 A = Inr (store_decimal (of_int ba - a))"
    and "getAccountBalance db1 B = Inr (store_decimal (of_int bb + a))"
proof -
  from t obtain db0 where 1: "update_balance (\<lambda>b. b - a) A db = Inr db0"
    and 2: "update_balance (\<lambda>b. b + a) B db0 = Inr db1"
    by (auto simp: processTransfer_def split: sum.splits)
  have A: "select_balance db1 A = map (new_balance (\<lambda>b. b - a)) (select_balance db A)"
    using select_balance_update [OF 1, of A] select_balance_update [OF 2, of A] ne by simp
  have B: "select_balance db1 B = map (new_balance (\<lambda>b. b + a)) (select_balance db B)"
    using select_balance_update [OF 1, of B] select_balance_update [OF 2, of B] ne by simp
  from ba A show "getAccountBalance db1 A = Inr (store_decimal (of_int ba - a))"
    by (auto simp: getAccountBalance_Inr new_balance_def)
  from bb B show "getAccountBalance db1 B = Inr (store_decimal (of_int bb + a))"
    by (auto simp: getAccountBalance_Inr new_balance_def)
qed

lemma process_transfer_cases:
  assumes "req_type d = Transfer"
  shows "(\<exists>e. process db d = Inl e)
       \<or> (\<exists>reason. process db d = Inr (Failed, Some reason, db))
       \<or> (\<exists>A B db1. process db d = Inr (Completed, None, db1)
              \<and> or_null (req_source_account_id d) = Some A
              \<and> or_null (req_destination_account_id d) = Some B
              \<and> checkSufficientBalance db A (req_amount d)
              \<and> processTransfer db A B (req_amount d) = Inr db1)"
  using assms
  by (auto simp: process_def failed_def completed_def split: option.splits sum.splits)

lemma new_balance_whole:
  "new_balance (\<lambda>b. b - of_int n) b = b - n" "new_balance (\<lambda>b. b + of_int n) b = b + n"
  by (simp_all add: new_balance_def store_decimal_whole)

lemma set_balance_inverse:
  "set_balance (\<lambda>b. b + of_int n) i (set_balance (\<lambda>b. b - of_int n) i a) = a"
  by (simp add: set_balance_def new_balance_whole)

text \<open>
  A covered transfer of a whole number of cents from an account to itself debits and
  credits the same row, and neither update is rounded.
\<close>

lemma processTransfer_self:
  assumes wf: "accounts_well_formed db" and b: "getAccountBalance db A = Inr b"
    and amt: "0 < n" "n \<le> b"
  shows "processTransfer db A A (of_int n) = Inr db"
proof -
  note w = well_formed_account [OF wf b]
  let ?db1 = "db\<lparr>accounts := map (set_balance (\<lambda>b. b - of_int n) A) (accounts db)\<rparr>"
  have 1: "update_balance (\<lambda>b. b - of_int n) A db = Inr ?db1"
    using w amt by (simp add: update_balance_def in_decimal_range_def new_balance_whole)
  have "select_balance ?db1 A = [b - n]"
    using select_balance_update [OF 1, of A] w(1) by (simp add: new_balance_whole)
  then have 2: "update_balance (\<lambda>b. b + of_int n) A ?db1 = Inr db"
    using w amt
    by (simp add: update_balance_def in_decimal_range_def new_balance_whole
        set_balance_inverse comp_def)
  show ?thesis by (simp add: processTransfer_def 1 2)
qed

text \<open>
  The outcomes of a transfer between two different accounts, for any amount: completed
  with both balances set to the difference and the sum as the column keeps them, failed
  with no balance changed, or thrown with the store as before.
\<close>

lemma transfer_outcomes:
  assumes ty: "req_type d = Transfer"
    and src: "req_source_account_id d = Some A"
    and dst: "req_destination_account_id d = Some B"
    and ne: "A \<noteq> B"
    and sub: "submitTransaction db tid d = (r, db')"
  shows "(\<exists>t ba bb. r = Inr t \<and> status t = Completed
            \<and> transactions db' = transactions db @ [t]
            \<and> getAccountBalance db A = Inr ba
            \<and> getAccountBalance db' A = Inr (store_decimal (of_int ba - req_amount d))
            \<and> getAccountBalance db B = Inr bb
            \<and> getAccountBalance db' B = Inr (store_decimal (of_int bb + req_amount d)))
       \<or> (\<exists>t. r = Inr t \<and> status t = Failed
            \<and> transactions db' = transactions db @ [t] \<and> accounts db' = accounts db)
       \<or> (\<exists>e. r = Inl e \<and> db' = db)"
proof -
  consider (throws) e where "process db d = Inl e"
    | (refused) reason where "process db d = Inr (Failed, Some reason, db)"
    | (moved) A' B' db1 where "process db d = Inr (Completed, None, db1)"
        "or_null (req_source_account_id d) = Some A'"
        "or_null (req_destination_account_id d) = Some B'"
        "checkSufficientBalance db A' (req_amount d)"
        "processTransfer db A' B' (req_amount d) = Inr db1"
    using process_transfer_cases [OF ty, of db] by blast
  then show ?thesis
  proof cases
    case throws
    from submitTransaction_throws [OF throws(1), of tid] sub show ?thesis by simp
  next
    case refused
    show ?thesis
    proof (cases "ledger_accepts db tid d")
      case True
      from submitTransaction_accepted [OF refused(1) True] sub show ?thesis
        by (auto simp: new_row_def)
    next
      case False
      from submitTransaction_rejected [OF refused(1) False] sub show ?thesis by auto
    qed
  next
    case moved
    from moved(2,3) src dst have [simp]: "A' = A" "B' = B" and nz: "A \<noteq> 0" "B \<noteq> 0"
      by (auto split: if_splits)
    show ?thesis
    proof (cases "ledger_accepts db tid d")
      case True
      from moved(4) obtain ba where ba: "getAccountBalance db A = Inr ba"
        by (auto simp: checkSufficientBalance_iff)
      from True dst nz have "references_account db (Some B)"
        by (simp add: ledger_accepts_def)
      then obtain bb where bb: "getAccountBalance db B = Inr bb"
        by (auto dest: references_account_balance)
      from moved(5) have tr: "processTransfer db A B (req_amount d) = Inr db1" by simp
      note bal = processTransfer_balances [OF tr ne ba bb]
      from submitTransaction_accepted [OF moved(1) True] sub
      have r: "r = Inr (new_row tid d Completed None)"
        and db': "db' = db1\<lparr>transactions := transactions db @ [new_row tid d Completed None]\<rparr>"
        by simp_all
      have "getAccountBalance db' A = Inr (store_decimal (of_int ba - req_amount d))"
        and "getAccountBalance db' B = Inr (store_decimal (of_int bb + req_amount d))"
        using bal by (simp_all add: db' getAccountBalance_def select_balance_def)
      with r db' ba bb show ?thesis by (simp add: new_row_def)
    next
      case False
      from submitTransaction_rejected [OF moved(1) False] sub show ?thesis by auto
    qed
  qed
qed

text \<open>The debit of a transfer is the same statement as the debit of a withdrawal.\<close>

lemma processTransfer_debit:
  "processWithdrawal db sourceId amt = Inl e \<Longrightarrow>
   processTransfer db sourceId destinationId amt = Inl e"
  by (simp add: processWithdrawal_def processTransfer_def)

text \<open>
  For a whole number of cents nothing is rounded: the debit fails as soon as the amount
  exceeds the balance.
\<close>

lemma whole_cent_debit_refused:
  assumes "getAccountBalance db accountId = Inr b" and "b - n < 0"
  shows "processWithdrawal db accountId (of_int n) = Inl OutOfRange
       \<or> processWithdrawal db accountId (of_int n) = Inl CheckConstraintViolated"
proof -
  from assms(1) obtain rest where "select_balance db accountId = b # rest"
    by (auto simp: getAccountBalance_Inr)
  with assms(2) show ?thesis
    by (simp add: processWithdrawal_def update_balance_def new_balance_whole)
qed

subsection \<open>Business-rule failures\<close>

lemma process_absent_source:
  assumes ty: "req_type d \<noteq> Deposit" and ok: "\<not> missing_required_reference d"
    and pos: "0 < req_amount d" and src: "req_source_account_id d = Some A"
    and absent: "A \<notin> set (map acc_id (accounts db))"
  shows "process db d = Inr (Failed, Some ''Insufficient funds'', db)"
proof -
  from absent have "select_balance db A = []"
    by (simp add: select_balance_def filter_absent_id del: set_map)
  then have chk: "\<not> checkSufficientBalance db A (req_amount d)"
    by (simp add: checkSufficientBalance_def)
  from ty ok src pos chk show ?thesis
    by (cases "req_type d")
      (auto simp: process_def failed_def missing_required_reference_def split: option.splits if_splits)
qed

lemma business_rule_process:
  assumes "violates_business_rule db d"
  shows "\<exists>reason \<in> set failure_reasons. process db d = Inr (Failed, Some reason, db)"
proof (cases "req_amount d \<le> 0")
  case True
  then show ?thesis by (simp add: process_def failed_def failure_reasons_def)
next
  case pos: False
  show ?thesis
  proof (cases "missing_required_reference d")
    case True
    with pos show ?thesis
      by (cases "req_type d")
        (auto simp: process_def failed_def failure_reasons_def missing_required_reference_def
          split: option.splits)
  next
    case False
    with pos assms have ins: "insufficient_funds db d"
      by (simp add: violates_business_rule_def)
    then obtain src b where s: "or_null (req_source_account_id d) = Some src"
      "getAccountBalance db src = Inr b" "of_int b < req_amount d" "req_type d \<noteq> Deposit"
      by (auto simp: insufficient_funds_def split: option.splits sum.splits)
    then have "\<not> checkSufficientBalance db src (req_amount d)"
      by (auto simp: checkSufficientBalance_iff)
    with pos False s show ?thesis
      by (cases "req_type d")
        (auto simp: process_def failed_def failure_reasons_def missing_required_reference_def
          split: option.splits)
  qed
qed

subsection \<open>The report\<close>

lemma completed_amounts_joined:
  "completed_amounts db (acc_id a) = set (map amount (joined_transactions db a))"
  by (auto simp: completed_amounts_def joined_transactions_def)

lemma coalesce_sql_max:
  "coalesce (sql_max xs) 0 = (if set xs = {} then 0 else Max (set xs))"
proof (cases xs)
  case Nil
  then show ?thesis by (simp add: sql_max_def coalesce_def)
next
  case (Cons x rest)
  then show ?thesis
    by (simp add: sql_max_def coalesce_def Max.set_eq_fold del: set_simps)
qed

lemma summary_lists_every_account:
  "map sum_account_id (getSummaryReport_accounts db) = map acc_id (accounts db)"
  by (simp add: getSummaryReport_accounts_def comp_def)

subsection \<open>The controller and the error handler\<close>

lemma err_message_AppError: "err_message (AppError msg statusCode cd) = msg"
  by (simp add: AppError_def)

lemma errorHandler_rethrown_unauthorized_source:
  "res_status (errorHandler (AppError ''Unauthorized access to source account'' 400 INTERNAL_ERROR)) = 400"
  by (simp add: errorHandler_def AppError_def Let_def)

lemma errorHandler_rethrown_unauthorized_destination:
  "res_status (errorHandler (AppError ''Unauthorized access to destination account'' 400 INTERNAL_ERROR)) = 400"
  by (simp add: errorHandler_def AppError_def Let_def)

lemma errorHandler_not_found:
  "res_status (errorHandler (AppError ''Source account not found'' 400 INTERNAL_ERROR)) = 404"
  "res_status (errorHandler (AppError ''Destination account not found'' 400 INTERNAL_ERROR)) = 404"
  by (simp_all add: errorHandler_def AppError_def Let_def)

text \<open>
  A source account of another user: the check throws the error with status 403, the
  \<^verbatim>\<open>catch\<close> block throws it again with status 400, and the handler has no entry for
  its message. The same happens for the destination of a deposit.
\<close>

lemma unauthorized_source_status:
  assumes "or_null (req_source_account_id (req_body req)) = Some src"
    and "findById db src = Some a" and "not_owner req a"
  shows "check_source db req = Some (AppError ''Unauthorized access to source account'' 403 INTERNAL_ERROR)"
    and "post_transactions_status store_message db tid req = 400"
proof -
  show c: "check_source db req = Some (AppError ''Unauthorized access to source account'' 403 INTERNAL_ERROR)"
    using assms by (simp add: check_source_def)
  have "fst (controller_submitTransaction store_message db tid req) =
      Inl (AppError ''Unauthorized access to source account'' 400 INTERNAL_ERROR)"
    by (simp add: controller_submitTransaction_def try_submitTransaction_def c err_message_AppError)
  then show "post_transactions_status store_message db tid req = 400"
    by (simp add: post_transactions_status_def errorHandler_rethrown_unauthorized_source)
qed

lemma unauthorized_destination_status:
  assumes "check_source db req = None"
    and "req_type (req_body req) = Deposit"
    and "or_null (req_destination_account_id (req_body req)) = Some dst"
    and "findById db dst = Some a" and "not_owner req a"
  shows "post_transactions_status store_message db tid req = 400"
proof -
  have c: "check_destination db req = Some (AppError ''Unauthorized access to destination account'' 403 INTERNAL_ERROR)"
    using assms by (simp add: check_destination_def)
  have "fst (controller_submitTransaction store_message db tid req) =
      Inl (AppError ''Unauthorized access to destination account'' 400 INTERNAL_ERROR)"
    by (simp add: controller_submitTransaction_def try_submitTransaction_def c assms(1) err_message_AppError)
  then show ?thesis
    by (simp add: post_transactions_status_def errorHandler_rethrown_unauthorized_destination)
qed

text \<open>
  A missing source account, and a missing destination of a deposit: the status 404 of the
  thrown error is lost in the same way, and the handler restores it from the message.
\<close>

lemma missing_source_status:
  assumes "or_null (req_source_account_id (req_body req)) = Some src"
    and "findById db src = None"
  shows "post_transactions_status store_message db tid req = 404"
proof -
  have c: "check_source db req = Some (AppError ''Source account not found'' 404 INTERNAL_ERROR)"
    using assms by (simp add: check_source_def)
  have "fst (controller_submitTransaction store_message db tid req) =
      Inl (AppError ''Source account not found'' 400 INTERNAL_ERROR)"
    by (simp add: controller_submitTransaction_def try_submitTransaction_def c err_message_AppError)
  then show ?thesis
    by (simp add: post_transactions_status_def errorHandler_not_found)
qed

lemma missing_deposit_destination_status:
  assumes "check_source db req = None"
    and "req_type (req_body req) = Deposit"
    and "or_null (req_destination_account_id (req_body req)) = Some dst"
    and "findById db dst = None"
  shows "post_transactions_status store_message db tid req = 404"
proof -
  have c: "check_destination db req = Some (AppError ''Destination account not found'' 404 INTERNAL_ERROR)"
    using assms by (simp add: check_destination_def)
  have "fst (controller_submitTransaction store_message db tid req) =
      Inl (AppError ''Destination account not found'' 400 INTERNAL_ERROR)"
    by (simp add: controller_submitTransaction_def try_submitTransaction_def c assms(1) err_message_AppError)
  then show ?thesis
    by (simp add: post_transactions_status_def errorHandler_not_found)
qed

section \<open>The claims\<close>

text \<open>
  Claim C1. Starting from a store in which every account balance is at least 0, after any
  finite sequence of submissions, of any types, amounts and account references, every
  committed balance is still at least 0.
\<close>

theorem balances_stay_non_negative:
  "balances_non_negative db \<Longrightarrow> balances_non_negative (submitTransactions db reqs)"
proof (induction reqs arbitrary: db)
  case Nil
  then show ?case by simp
next
  case (Cons r reqs)
  obtain tid d where r: "r = (tid, d)" by (cases r)
  from Cons.prems have "balances_non_negative (snd (submitTransaction db tid d))"
    by (rule submitTransaction_non_negative)
  then show ?case unfolding r by (simp add: Cons.IH)
qed

theorem balances_stay_non_negative_witness:
  "balances_non_negative seed_db \<and>
   balances_non_negative
     (submitTransactions seed_db
        [(''t-1'', request Deposit 50000 None (Some 1)),
         (''t-2'', request Withdrawal 500000 (Some 1) None),
         (''t-3'', request Transfer 30000 (Some 1) (Some 2)),
         (''t-4'', request Withdrawal (- 1000) (Some 3) None)])"
proof -
  have h: "balances_non_negative seed_db"
    by (simp add: balances_non_negative_def seed_db_def)
  from h balances_stay_non_negative [OF h] show ?thesis by blast
qed

text \<open>
  Claim C2, as amended. A transfer of a whole number of cents from an account A to a
  different account B has three outcomes and no other. Either the call returns a
  completed transaction, that one row is appended to the ledger, A has gone down by the
  amount and B has gone up by it; or it returns a failed transaction, that one row is
  appended and no balance has changed; or it throws, and the store is exactly as before:
  no balance changed and no row recorded. A balance never changes alone or without its
  ledger row.
\<close>

theorem transfer_atomic:
  assumes ty: "req_type d = Transfer"
    and src: "req_source_account_id d = Some A"
    and dst: "req_destination_account_id d = Some B"
    and ne: "A \<noteq> B"
    and whole: "req_amount d = of_int a"
    and sub: "submitTransaction db tid d = (r, db')"
  shows "(\<exists>t ba bb. r = Inr t \<and> status t = Completed
            \<and> transactions db' = transactions db @ [t]
            \<and> getAccountBalance db A = Inr ba
            \<and> getAccountBalance db' A = Inr (ba - a)
            \<and> getAccountBalance db B = Inr bb
            \<and> getAccountBalance db' B = Inr (bb + a))
       \<or> (\<exists>t. r = Inr t \<and> status t = Failed
            \<and> transactions db' = transactions db @ [t] \<and> accounts db' = accounts db)
       \<or> (\<exists>e. r = Inl e \<and> db' = db)"
  using transfer_outcomes [OF ty src dst ne sub]
  by (simp add: whole store_decimal_whole)

text \<open>
  Scenario 4 of the specification: 300.00 from account 1 (1000.00) to account 2 (500.00)
  completes and leaves 700.00 and 800.00.
\<close>

theorem transfer_atomic_witness:
  "req_type (request Transfer 30000 (Some 1) (Some 2)) = Transfer
   \<and> req_source_account_id (request Transfer 30000 (Some 1) (Some 2)) = Some 1
   \<and> req_destination_account_id (request Transfer 30000 (Some 1) (Some 2)) = Some 2
   \<and> (1::int) \<noteq> 2
   \<and> req_amount (request Transfer 30000 (Some 1) (Some 2)) = of_int 30000
   \<and> (\<exists>t. fst (submitTransaction seed_db ''t-1'' (request Transfer 30000 (Some 1) (Some 2))) = Inr t
        \<and> status t = Completed)
   \<and> getAccountBalance seed_db 1 = Inr 100000
   \<and> getAccountBalance
        (snd (submitTransaction seed_db ''t-1'' (request Transfer 30000 (Some 1) (Some 2)))) 1
       = Inr 70000
   \<and> getAccountBalance seed_db 2 = Inr 50000
   \<and> getAccountBalance
        (snd (submitTransaction seed_db ''t-1'' (request Transfer 30000 (Some 1) (Some 2)))) 2
       = Inr 80000"
proof -
  let ?d = "request Transfer 30000 (Some 1) (Some 2)"
  have h: "req_type ?d = Transfer" "req_source_account_id ?d = Some 1"
    "req_destination_account_id ?d = Some 2" "(1::int) \<noteq> 2"
    "req_amount ?d = of_int 30000"
    by (simp_all add: request_def)
  have s: "submitTransaction seed_db ''t-1'' ?d =
     (fst (submitTransaction seed_db ''t-1'' ?d), snd (submitTransaction seed_db ''t-1'' ?d))"
    by simp
  have c: "fst (submitTransaction seed_db ''t-1'' ?d) =
      Inr \<lparr> transaction_id = ''t-1'', txn_type = Transfer, amount = 30000,
            source_account_id = Some 1, destination_account_id = Some 2,
            status = Completed, failure_reason = None \<rparr>"
    by (simp add: eval_defs)
  have b: "getAccountBalance seed_db 1 = Inr 100000" "getAccountBalance seed_db 2 = Inr 50000"
    by (simp_all add: getAccountBalance_def select_balance_def seed_db_def)
  from transfer_atomic [OF h s] show ?thesis
    unfolding c b using h by auto
qed

text \<open>
  The claim as written fails three times. A transfer of 300.00 from account 1 to an
  account 99 that does not exist passes the balance check, but its ledger row breaks the
  foreign key of the destination: the call throws and records neither a completed nor a
  failed transaction. A transfer of 300.00 from account 1 to itself records a completed
  transaction although no balance has changed. A transfer of half a cent from account 1
  (1000.00) to account 2 (500.00) is completed, but the column rounds 999.995 back to
  1000.00 and 500.005 up to 500.01: only the balance of account 2 has changed.
\<close>

theorem transfer_atomic_counterexample:
  "submitTransaction seed_db ''t-1'' (request Transfer 30000 (Some 1) (Some 99)) =
     (Inl NoReferencedRow, seed_db)
   \<and> submitTransaction seed_db ''t-1'' (request Transfer 30000 (Some 1) (Some 1)) =
     (Inr \<lparr> transaction_id = ''t-1'', txn_type = Transfer, amount = 30000,
            source_account_id = Some 1, destination_account_id = Some 1,
            status = Completed, failure_reason = None \<rparr>,
      seed_db\<lparr>transactions :=
        [\<lparr> transaction_id = ''t-1'', txn_type = Transfer, amount = 30000,
            source_account_id = Some 1, destination_account_id = Some 1,
            status = Completed, failure_reason = None \<rparr>]\<rparr>)
   \<and> fst (submitTransaction seed_db ''t-1'' (request Transfer (1 / 2) (Some 1) (Some 2))) =
       Inr \<lparr> transaction_id = ''t-1'', txn_type = Transfer, amount = 1,
             source_account_id = Some 1, destination_account_id = Some 2,
             status = Completed, failure_reason = None \<rparr>
   \<and> getAccountBalance seed_db 1 = Inr 100000
   \<and> getAccountBalance
        (snd (submitTransaction seed_db ''t-1'' (request Transfer (1 / 2) (Some 1) (Some 2)))) 1
       = Inr 100000
   \<and> getAccountBalance seed_db 2 = Inr 50000
   \<and> getAccountBalance
        (snd (submitTransaction seed_db ''t-1'' (request Transfer (1 / 2) (Some 1) (Some 2)))) 2
       = Inr 50001"
  by (simp add: eval_defs)

text \<open>
  Claim C3. A request that violates a business rule (a non-positive amount, a missing
  required account reference, insufficient funds) is never answered by a thrown business
  error: the call returns a transaction with status failed and one of the failure reasons,
  and records it. The only error such a request can raise is a constraint violation of
  the store, on the INSERT of that failed row, and then nothing is committed.
\<close>

theorem business_rule_violation_recorded:
  assumes "violates_business_rule db d"
  shows "if ledger_accepts db tid d
         then \<exists>t. submitTransaction db tid d = (Inr t, db\<lparr>transactions := transactions db @ [t]\<rparr>)
                 \<and> status t = Failed
                 \<and> (\<exists>reason \<in> set failure_reasons. failure_reason t = Some reason)
         else \<exists>e. submitTransaction db tid d = (Inl e, db) \<and> constraint_violation e"
proof -
  from business_rule_process [OF assms] obtain reason
    where r: "reason \<in> set failure_reasons" and p: "process db d = Inr (Failed, Some reason, db)"
    by blast
  show ?thesis
  proof (cases "ledger_accepts db tid d")
    case True
    from submitTransaction_accepted [OF p True] r True show ?thesis
      by (auto simp: new_row_def)
  next
    case False
    from submitTransaction_rejected [OF p False] False show ?thesis
      by (auto simp: constraint_violation_def)
  qed
qed

text \<open>Scenario 3 of the specification: 5000.00 withdrawn from account 1, which holds 1000.00.\<close>

theorem business_rule_violation_recorded_witness:
  "violates_business_rule seed_db (request Withdrawal 500000 (Some 1) None)
   \<and> ledger_accepts seed_db ''t-1'' (request Withdrawal 500000 (Some 1) None)
   \<and> (\<exists>t. submitTransaction seed_db ''t-1'' (request Withdrawal 500000 (Some 1) None) =
            (Inr t, seed_db\<lparr>transactions := transactions seed_db @ [t]\<rparr>)
          \<and> status t = Failed
          \<and> (\<exists>reason \<in> set failure_reasons. failure_reason t = Some reason))
   \<and> violates_business_rule seed_db (request Deposit 0 None (Some 99))
   \<and> \<not> ledger_accepts seed_db ''t-1'' (request Deposit 0 None (Some 99))
   \<and> (\<exists>e. submitTransaction seed_db ''t-1'' (request Deposit 0 None (Some 99)) = (Inl e, seed_db)
          \<and> constraint_violation e)"
proof -
  let ?d = "request Withdrawal 500000 (Some 1) None"
  let ?d' = "request Deposit 0 None (Some 99)"
  have v: "violates_business_rule seed_db ?d"
    by (simp add: violates_business_rule_def insufficient_funds_def request_def
        getAccountBalance_def select_balance_def seed_db_def)
  have a: "ledger_accepts seed_db ''t-1'' ?d"
    by (simp add: ledger_accepts_def request_def seed_db_def in_decimal_range_def
        DECIMAL_15_2_MAX_def references_account_def store_decimal_numeral)
  have v': "violates_business_rule seed_db ?d'"
    by (simp add: violates_business_rule_def request_def)
  have r': "\<not> ledger_accepts seed_db ''t-1'' ?d'"
    by (simp add: ledger_accepts_def request_def seed_db_def references_account_def)
  from business_rule_violation_recorded [OF v, of "''t-1''"] a
  have 1: "\<exists>t. submitTransaction seed_db ''t-1'' ?d =
            (Inr t, seed_db\<lparr>transactions := transactions seed_db @ [t]\<rparr>)
          \<and> status t = Failed
          \<and> (\<exists>reason \<in> set failure_reasons. failure_reason t = Some reason)"
    by simp
  from business_rule_violation_recorded [OF v', of "''t-1''"] r'
  have 2: "\<exists>e. submitTransaction seed_db ''t-1'' ?d' = (Inl e, seed_db) \<and> constraint_violation e"
    by simp
  from v a 1 v' r' 2 show ?thesis by blast
qed

text \<open>
  Claim C4, as amended. For a submission of any type with an amount of 0 or less the type
  specific branch is skipped: the status is failed with the reason "Negative or zero amount
  not allowed" before any account is read or written, and no balance changes. When the
  store accepts the ledger row (the amount fits the column, the identifier is new, every
  account reference given names a stored account) the call returns that failed transaction
  and records it; otherwise the INSERT raises, the call throws and nothing is recorded.
\<close>

theorem non_positive_amount_fails:
  assumes "req_amount d \<le> 0"
  shows "process db d = Inr (Failed, Some ''Negative or zero amount not allowed'', db)
    \<and> accounts (snd (submitTransaction db tid d)) = accounts db
    \<and> (if ledger_accepts db tid d
       then submitTransaction db tid d =
             (Inr (new_row tid d Failed (Some ''Negative or zero amount not allowed'')),
              db\<lparr>transactions := transactions db
                    @ [new_row tid d Failed (Some ''Negative or zero amount not allowed'')]\<rparr>)
       else \<exists>e. submitTransaction db tid d = (Inl e, db))"
proof -
  have p: "process db d = Inr (Failed, Some ''Negative or zero amount not allowed'', db)"
    using assms by (simp add: process_def failed_def)
  show ?thesis
  proof (cases "ledger_accepts db tid d")
    case True
    from submitTransaction_accepted [OF p True] p True show ?thesis by simp
  next
    case False
    from submitTransaction_rejected [OF p False] p False show ?thesis by auto
  qed
qed

text \<open>Scenario 5 of the specification: an amount of -10.00.\<close>

theorem non_positive_amount_fails_witness:
  "req_amount (request Withdrawal (- 1000) (Some 1) None) \<le> 0 \<and>
   fst (submitTransaction seed_db ''t-1'' (request Withdrawal (- 1000) (Some 1) None)) =
     Inr \<lparr> transaction_id = ''t-1'', txn_type = Withdrawal, amount = - 1000,
           source_account_id = Some 1, destination_account_id = None,
           status = Failed, failure_reason = Some ''Negative or zero amount not allowed'' \<rparr>"
proof -
  have h: "req_amount (request Withdrawal (- 1000) (Some 1) None) \<le> 0"
    by (simp add: request_def)
  have a: "ledger_accepts seed_db ''t-1'' (request Withdrawal (- 1000) (Some 1) None)"
    by (simp add: ledger_accepts_def request_def seed_db_def in_decimal_range_def
        DECIMAL_15_2_MAX_def references_account_def store_decimal_numeral)
  from non_positive_amount_fails [OF h, of seed_db "''t-1''"] a h show ?thesis
    by (simp add: new_row_def request_def store_decimal_numeral)
qed

text \<open>
  The claim as written fails on a transfer of -10.00 from account 1 to an account 99 that
  does not exist: the failed row cannot be inserted, so no transaction is returned.
\<close>

theorem non_positive_amount_counterexample:
  "submitTransaction seed_db ''t-1'' (request Transfer (- 1000) (Some 1) (Some 99)) =
     (Inl NoReferencedRow, seed_db)"
  by (simp add: eval_defs)

text \<open>
  Claim C5 says that a caller who does not own the source account is answered with
  status 403. Here bob is authenticated, his body passes the validation schema, and the
  source account 1 belongs to alice. The ownership check throws the error with status 403,
  the controller's own \<^verbatim>\<open>catch\<close> block throws it again with status 400, and the
  response has status 400.
\<close>

theorem foreign_withdrawal_status_400:
  "authenticateUser seed_db (Some ''key-bob'') = Inr bob
   \<and> schemas_transaction (req_body foreign_withdrawal)
   \<and> check_source seed_db foreign_withdrawal =
       Some (AppError ''Unauthorized access to source account'' 403 INTERNAL_ERROR)
   \<and> fst (controller_submitTransaction mysql_message seed_db ''t-1'' foreign_withdrawal) =
       Inl (AppError ''Unauthorized access to source account'' 400 INTERNAL_ERROR)
   \<and> post_transactions_status mysql_message seed_db ''t-1'' foreign_withdrawal = 400"
  by (simp add: authenticateUser_def findBySecretKey_def seed_db_def bob_def
      schemas_transaction_def required_positive_def safe_amount_def MAX_SAFE_INTEGER_def
      foreign_withdrawal_def request_def
      check_source_def findById_def not_owner_def controller_submitTransaction_def
      try_submitTransaction_def post_transactions_status_def err_message_AppError
      errorHandler_rethrown_unauthorized_source)

text \<open>
  Claim C7. For every account in the summary report, \<^verbatim>\<open>largest_transaction\<close> is the
  maximum amount over all completed transactions that name the account as source or as
  destination, and 0 when there is none.
\<close>

theorem largest_transaction_is_maximum:
  assumes "s \<in> set (getSummaryReport_accounts db)"
  shows "largest_transaction s = largest_completed_transaction db (sum_account_id s)"
proof -
  from assms obtain a where a: "a \<in> set (accounts db)"
    and id: "sum_account_id s = acc_id a"
    and l: "largest_transaction s = coalesce (sql_max (map amount (joined_transactions db a))) 0"
    by (auto simp: getSummaryReport_accounts_def)
  show ?thesis
    unfolding l id largest_completed_transaction_def completed_amounts_joined
    by (rule coalesce_sql_max)
qed

theorem largest_transaction_is_maximum_witness:
  "\<lparr> sum_account_id = 1, sum_account_number = ''ACC001'', sum_username = Some ''alice'',
      current_balance = 100000, largest_transaction = 50000 \<rparr>
     \<in> set (getSummaryReport_accounts ledger_db)
   \<and> largest_completed_transaction ledger_db 1 = 50000"
proof -
  let ?s = "\<lparr> sum_account_id = 1, sum_account_number = ''ACC001'', sum_username = Some ''alice'',
      current_balance = 100000, largest_transaction = 50000 \<rparr>"
  have h: "?s \<in> set (getSummaryReport_accounts ledger_db)"
    by (simp add: getSummaryReport_accounts_def ledger_db_def seed_db_def joined_username_def
        joined_transactions_def sql_max_def coalesce_def)
  from largest_transaction_is_maximum [OF h] h show ?thesis by simp
qed

text \<open>
  Claim C8. The debit statement of the store fails whenever it would drive the balance of
  the account below 0, whether or not the engine has checked the funds before: the new
  value breaks \<^verbatim>\<open>chk_balance_non_negative\<close>, or already the range of the column. The
  new balance is the difference as the column keeps it; for a whole number of cents that
  is the difference itself.
\<close>

theorem debit_fails_below_zero:
  assumes "getAccountBalance db accountId = Inr b" and "store_decimal (of_int b - amt) < 0"
  shows "processWithdrawal db accountId amt = Inl OutOfRange
       \<or> processWithdrawal db accountId amt = Inl CheckConstraintViolated"
proof -
  from assms(1) obtain rest where "select_balance db accountId = b # rest"
    by (auto simp: getAccountBalance_Inr)
  with assms(2) show ?thesis
    by (simp add: processWithdrawal_def update_balance_def new_balance_def)
qed

theorem debit_fails_below_zero_witness:
  "getAccountBalance seed_db 1 = Inr 100000 \<and> store_decimal (of_int 100000 - 500000) < 0
   \<and> processWithdrawal seed_db 1 500000 = Inl CheckConstraintViolated"
proof -
  have h: "getAccountBalance seed_db 1 = Inr 100000" "store_decimal (of_int 100000 - 500000) < 0"
    by (simp_all add: getAccountBalance_def select_balance_def seed_db_def store_decimal_numeral)
  have "processWithdrawal seed_db 1 500000 \<noteq> Inl OutOfRange"
    by (simp add: processWithdrawal_def update_balance_def select_balance_def seed_db_def
        in_decimal_range_def DECIMAL_15_2_MAX_def new_balance_def store_decimal_numeral)
  with debit_fails_below_zero [OF h] h show ?thesis by simp
qed

text \<open>
  Claim C9, as amended. A transfer whose source and destination are the same account,
  with a positive amount that is a whole number of cents and that the balance of the
  account covers, returns a transaction with status completed and leaves the balance of
  the account, and every other, as it was. The store is one the schema allows and the
  identifier drawn for the transaction is new.
\<close>

theorem self_transfer_completed:
  assumes ty: "req_type d = Transfer"
    and src: "req_source_account_id d = Some A"
    and dst: "req_destination_account_id d = Some A"
    and whole: "req_amount d = of_int n"
    and pos: "0 < req_amount d"
    and b: "getAccountBalance db A = Inr b" and le: "req_amount d \<le> of_int b"
    and wf: "accounts_well_formed db"
    and fresh: "tid \<notin> set (map transaction_id (transactions db))"
  shows "submitTransaction db tid d =
           (Inr (new_row tid d Completed None),
            db\<lparr>transactions := transactions db @ [new_row tid d Completed None]\<rparr>)
       \<and> getAccountBalance (snd (submitTransaction db tid d)) A = Inr b"
proof -
  note w = well_formed_account [OF wf b]
  from pos le whole have n: "0 < n" "n \<le> b" by simp_all
  from w(2) have nz: "or_null (Some A) = Some A" by simp
  have chk: "checkSufficientBalance db A (req_amount d)"
    using b le by (auto simp: checkSufficientBalance_iff)
  have p: "process db d = Inr (Completed, None, db)"
    using ty src dst pos nz chk processTransfer_self [OF wf b n]
    by (simp add: process_def completed_def whole)
  have "A \<in> set (map acc_id (accounts db))"
  proof -
    from w(1) have "filter (\<lambda>a. acc_id a = A) (accounts db) \<noteq> []"
      by (auto simp: select_balance_def)
    then show ?thesis by (auto simp: filter_empty_conv)
  qed
  moreover have "in_decimal_range (store_decimal (req_amount d))"
    using w(3) n by (simp add: in_decimal_range_def whole store_decimal_of_int)
  ultimately have acc: "ledger_accepts db tid d"
    using fresh src dst nz
    by (simp add: ledger_accepts_def references_account_def del: set_map or_null.simps)
  from submitTransaction_accepted [OF p acc] b show ?thesis
    by (simp add: getAccountBalance_def select_balance_def)
qed

theorem self_transfer_completed_witness:
  "req_type (request Transfer 30000 (Some 1) (Some 1)) = Transfer
   \<and> req_source_account_id (request Transfer 30000 (Some 1) (Some 1)) = Some 1
   \<and> req_destination_account_id (request Transfer 30000 (Some 1) (Some 1)) = Some 1
   \<and> req_amount (request Transfer 30000 (Some 1) (Some 1)) = of_int 30000
   \<and> 0 < req_amount (request Transfer 30000 (Some 1) (Some 1))
   \<and> getAccountBalance seed_db 1 = Inr 100000
   \<and> req_amount (request Transfer 30000 (Some 1) (Some 1)) \<le> of_int 100000
   \<and> accounts_well_formed seed_db
   \<and> ''t-1'' \<notin> set (map transaction_id (transactions seed_db))
   \<and> status (new_row ''t-1'' (request Transfer 30000 (Some 1) (Some 1)) Completed None) = Completed
   \<and> fst (submitTransaction seed_db ''t-1'' (request Transfer 30000 (Some 1) (Some 1))) =
       Inr (new_row ''t-1'' (request Transfer 30000 (Some 1) (Some 1)) Completed None)
   \<and> getAccountBalance
        (snd (submitTransaction seed_db ''t-1'' (request Transfer 30000 (Some 1) (Some 1)))) 1
       = Inr 100000"
proof -
  let ?d = "request Transfer 30000 (Some 1) (Some 1)"
  have h: "req_type ?d = Transfer" "req_source_account_id ?d = Some 1"
    "req_destination_account_id ?d = Some 1" "req_amount ?d = of_int 30000"
    "0 < req_amount ?d"
    "getAccountBalance seed_db 1 = Inr 100000" "req_amount ?d \<le> of_int 100000"
    "accounts_well_formed seed_db" "''t-1'' \<notin> set (map transaction_id (transactions seed_db))"
    by (simp_all add: request_def seed_db_def getAccountBalance_def select_balance_def
        accounts_well_formed_def in_decimal_range_def DECIMAL_15_2_MAX_def)
  note t = self_transfer_completed [OF h]
  from t have f: "fst (submitTransaction seed_db ''t-1'' ?d) = Inr (new_row ''t-1'' ?d Completed None)"
    by simp
  have st: "status (new_row ''t-1'' ?d Completed None) = Completed"
    by (simp add: new_row_def)
  from h f t st show ?thesis by blast
qed

text \<open>
  The claim as written fails on a transfer of half a cent from account 1, which holds
  1000.00, to itself. The amount is positive and covered and the transaction is
  completed, but the debit 999.995 is kept as 1000.00 and the credit 1000.005 as 1000.01:
  the balance has gone up by a cent.
\<close>

theorem self_transfer_counterexample:
  "0 < req_amount (request Transfer (1 / 2) (Some 1) (Some 1))
   \<and> getAccountBalance seed_db 1 = Inr 100000
   \<and> req_amount (request Transfer (1 / 2) (Some 1) (Some 1)) \<le> of_int 100000
   \<and> fst (submitTransaction seed_db ''t-1'' (request Transfer (1 / 2) (Some 1) (Some 1))) =
       Inr \<lparr> transaction_id = ''t-1'', txn_type = Transfer, amount = 1,
             source_account_id = Some 1, destination_account_id = Some 1,
             status = Completed, failure_reason = None \<rparr>
   \<and> getAccountBalance
        (snd (submitTransaction seed_db ''t-1'' (request Transfer (1 / 2) (Some 1) (Some 1)))) 1
       = Inr 100001"
  by (simp add: eval_defs)

text \<open>
  Claim C10, as amended. For a withdrawal or a transfer that carries its required account
  references, with a positive amount and a source id that no stored account has, the
  balance check fails as it would for a balance of 0, the status is failed with the reason
  "Insufficient funds", and no balance changes. The failed transaction is not returned,
  though: its ledger row holds the source id, which breaks the foreign key, so the call
  throws a constraint violation of the store and nothing is recorded. With an amount that
  fits the column and a new identifier that violation is the one of the foreign key.
\<close>

theorem absent_source_throws:
  assumes ty: "req_type d \<noteq> Deposit" and ok: "\<not> missing_required_reference d"
    and pos: "0 < req_amount d" and src: "req_source_account_id d = Some A"
    and absent: "A \<notin> set (map acc_id (accounts db))"
  shows "\<not> checkSufficientBalance db A (req_amount d)
       \<and> process db d = Inr (Failed, Some ''Insufficient funds'', db)
       \<and> (\<exists>e. submitTransaction db tid d = (Inl e, db) \<and> constraint_violation e)
       \<and> (in_decimal_range (store_decimal (req_amount d))
            \<and> tid \<notin> set (map transaction_id (transactions db))
            \<longrightarrow> submitTransaction db tid d = (Inl NoReferencedRow, db))"
proof -
  from absent have "select_balance db A = []"
    by (simp add: select_balance_def filter_absent_id del: set_map)
  then have chk: "\<not> checkSufficientBalance db A (req_amount d)"
    by (simp add: checkSufficientBalance_def)
  note p = process_absent_source [OF assms]
  from ty ok src have nz: "or_null (req_source_account_id d) = Some A"
    by (cases "req_type d") (auto simp: missing_required_reference_def split: if_splits)
  with absent have nref: "\<not> references_account db (or_null (req_source_account_id d))"
    by (simp add: references_account_def del: set_map)
  then have rej: "\<not> ledger_accepts db tid d"
    by (simp add: ledger_accepts_def)
  from submitTransaction_rejected [OF p rej]
  have thr: "\<exists>e. submitTransaction db tid d = (Inl e, db) \<and> constraint_violation e"
    by (auto simp: constraint_violation_def)
  have "submitTransaction db tid d = (Inl NoReferencedRow, db)"
    if "in_decimal_range (store_decimal (req_amount d))"
      "tid \<notin> set (map transaction_id (transactions db))"
    using that nref
    by (simp add: submitTransaction_def p insert_transaction_def new_row_def del: set_map)
  with chk p thr show ?thesis by simp
qed

theorem absent_source_throws_witness:
  "req_type (request Transfer 20000 (Some 99) (Some 2)) \<noteq> Deposit
   \<and> \<not> missing_required_reference (request Transfer 20000 (Some 99) (Some 2))
   \<and> 0 < req_amount (request Transfer 20000 (Some 99) (Some 2))
   \<and> req_source_account_id (request Transfer 20000 (Some 99) (Some 2)) = Some 99
   \<and> 99 \<notin> set (map acc_id (accounts seed_db))
   \<and> process seed_db (request Transfer 20000 (Some 99) (Some 2)) =
       Inr (Failed, Some ''Insufficient funds'', seed_db)
   \<and> submitTransaction seed_db ''t-1'' (request Transfer 20000 (Some 99) (Some 2)) =
       (Inl NoReferencedRow, seed_db)"
proof -
  let ?d = "request Transfer 20000 (Some 99) (Some 2)"
  have h: "req_type ?d \<noteq> Deposit" "\<not> missing_required_reference ?d" "0 < req_amount ?d"
    "req_source_account_id ?d = Some 99" "99 \<notin> set (map acc_id (accounts seed_db))"
    by (simp_all add: request_def missing_required_reference_def seed_db_def)
  have r: "in_decimal_range (store_decimal (req_amount ?d))"
    "''t-1'' \<notin> set (map transaction_id (transactions seed_db))"
    by (simp_all add: request_def in_decimal_range_def DECIMAL_15_2_MAX_def seed_db_def
        store_decimal_numeral)
  from absent_source_throws [OF h, of "''t-1''"] r
  have "process seed_db ?d = Inr (Failed, Some ''Insufficient funds'', seed_db)"
    and "submitTransaction seed_db ''t-1'' ?d = (Inl NoReferencedRow, seed_db)"
    by simp_all
  with h show ?thesis by blast
qed

text \<open>
  The claim as written fails on a withdrawal of 200.00 from an account 99 that does not
  exist: no failed transaction is returned, the call throws.
\<close>

theorem absent_source_counterexample:
  "submitTransaction seed_db ''t-1'' (request Withdrawal 20000 (Some 99) None) =
     (Inl NoReferencedRow, seed_db)"
  by (simp add: eval_defs)

end
